theory Spec2Isabelle
  imports Main "HOL-Library.Multiset"
begin

section \<open>JavaScript values and objects\<close>

text \<open>
  The data layer of \<^verbatim>\<open>src/src/App.js\<close> (class \<^verbatim>\<open>ProjectService\<close>) works on plain
  JavaScript objects. A value is one of the primitives, an array, a plain object, or an
  opaque reference to an object of the host (a \<^verbatim>\<open>File\<close> handed through as an image).
  Numbers are restricted to integers (no \<^verbatim>\<open>NaN\<close>, no fractions); a string is a list of
  code units below 256. A plain object is a finite map from property names to values: a
  property that is absent reads as \<^verbatim>\<open>undefined\<close>, and the spread
  \<^verbatim>\<open>{...p, ...q}\<close> is the map \<open>p ++ q\<close>. The records of a collection are such maps
  (\<open>jsobj\<close>); as a value, an object is wrapped in \<open>JObj\<close>, so that a stored text may
  deserialize to any value: a collection is the value \<open>JArr (map JObj records)\<close>.
\<close>

datatype jsval =
    JUndefined
  | JNull
  | JBool bool
  | JNum int
  | JStr string
  | JArr "jsval list"
  | JObj "string \<Rightarrow> jsval option"
  | JRef nat

type_synonym jsobj = "string \<rightharpoonup> jsval"

datatype js_error = TypeError | SyntaxError | SecurityError | QuotaExceededError

definition js_get :: "jsobj \<Rightarrow> string \<Rightarrow> jsval" where
  "js_get obj k = (case obj k of None \<Rightarrow> JUndefined | Some v \<Rightarrow> v)"

fun truthy :: "jsval \<Rightarrow> bool" where
  "truthy JUndefined = False"
| "truthy JNull = False"
| "truthy (JBool b) = b"
| "truthy (JNum n) = (n \<noteq> 0)"
| "truthy (JStr s) = (s \<noteq> [])"
| "truthy (JArr xs) = True"
| "truthy (JObj f) = True"
| "truthy (JRef r) = True"

text \<open>
  \<^verbatim>\<open>a === b\<close>: primitives compare by value, opaque references by identity. An array
  and a plain object are compared by identity, which this model does not track for them:
  neither is ever \<^verbatim>\<open>===\<close> to anything.
\<close>

fun strict_eq :: "jsval \<Rightarrow> jsval \<Rightarrow> bool" where
  "strict_eq (JArr xs) b = False"
| "strict_eq (JObj f) b = False"
| "strict_eq a b = (a = b)"

fun isArray :: "jsval \<Rightarrow> bool" where
  "isArray (JArr xs) = True"
| "isArray v = False"

fun isString :: "jsval \<Rightarrow> bool" where
  "isString (JStr s) = True"
| "isString v = False"

fun isBoolean :: "jsval \<Rightarrow> bool" where
  "isBoolean (JBool b) = True"
| "isBoolean v = False"

text \<open>\<^verbatim>\<open>v || null\<close>\<close>

definition or_null :: "jsval \<Rightarrow> jsval" where
  "or_null v = (if truthy v then v else JNull)"

subsection \<open>String helpers of the runtime\<close>

text \<open>\<^verbatim>\<open>s.split(c)\<close> for a one-character separator: the empty string splits into one empty piece.\<close>

fun split_on :: "char \<Rightarrow> string \<Rightarrow> string list" where
  "split_on c [] = [[]]"
| "split_on c (x # xs) =
     (if x = c then [] # split_on c xs
      else (case split_on c xs of
              [] \<Rightarrow> [[x]]
            | w # ws \<Rightarrow> (x # w) # ws))"

text \<open>White space and line terminators among the code units below 256.\<close>

definition is_space :: "char \<Rightarrow> bool" where
  "is_space c = (of_char c \<in> {9, 10, 11, 12, 13, 32, 160 :: nat})"

definition trim :: "string \<Rightarrow> string" where
  "trim s = rev (dropWhile is_space (rev (dropWhile is_space s)))"

text \<open>
  \<^verbatim>\<open>Array.prototype.sort(cmp)\<close>: a stable sort; a comparator result of \<^verbatim>\<open>NaN\<close>
  (\<open>None\<close>) counts as \<open>0\<close>. Modelled as a stable insertion sort: an element goes in
  front of the first element it does not compare greater than. With a consistent
  comparator every stable sort gives this result. With an inconsistent one (a \<^verbatim>\<open>NaN\<close>
  among the results, for one) the order is left to the engine, and the order computed
  here need not be the engine's.
\<close>

fun sort_insert :: "('a \<Rightarrow> 'a \<Rightarrow> int option) \<Rightarrow> 'a \<Rightarrow> 'a list \<Rightarrow> 'a list" where
  "sort_insert cmp x [] = [x]"
| "sort_insert cmp x (y # ys) =
     (if (case cmp x y of None \<Rightarrow> 0 | Some v \<Rightarrow> v) \<le> 0 then x # y # ys
      else y # sort_insert cmp x ys)"

definition array_sort :: "('a \<Rightarrow> 'a \<Rightarrow> int option) \<Rightarrow> 'a list \<Rightarrow> 'a list" where
  "array_sort cmp xs = foldr (sort_insert cmp) xs []"

text \<open>
  What the service takes from the JavaScript runtime: \<^verbatim>\<open>JSON.parse\<close>, which throws a
  \<^verbatim>\<open>SyntaxError\<close> (\<open>None\<close>) or yields a value of any kind, \<^verbatim>\<open>JSON.stringify\<close> on a
  collection, and the time value of \<^verbatim>\<open>new Date(v)\<close> (\<open>None\<close> is an invalid date, whose
  time value is \<^verbatim>\<open>NaN\<close>).
\<close>

record runtime =
  json_parse :: "string \<Rightarrow> jsval option"
  json_stringify :: "jsobj list \<Rightarrow> string"
  date_value :: "jsval \<Rightarrow> int option"

text \<open>
  What one call reads from the clock and the random source: the decimal rendering of
  \<^verbatim>\<open>Date.now()\<close>, the text \<^verbatim>\<open>Math.random().toString(36).substr(2, 9)\<close>, and the
  results of the first and the second \<^verbatim>\<open>new Date().toISOString()\<close> of the call.
\<close>

record clock =
  date_now :: string
  random_suffix :: string
  iso_now :: string
  iso_later :: string

section \<open>The durable medium\<close>

text \<open>
  \<^verbatim>\<open>localStorage\<close>: a key-value store of texts. Any access throws when the medium is
  denied to the page; a write throws when the quota is exceeded.
\<close>

record local_storage =
  items :: "string \<rightharpoonup> string"
  access_denied :: bool
  quota_exceeded :: bool

definition getItem :: "local_storage \<Rightarrow> string \<Rightarrow> js_error + string option" where
  "getItem ls k = (if access_denied ls then Inl SecurityError else Inr (items ls k))"

definition setItem :: "local_storage \<Rightarrow> string \<Rightarrow> string \<Rightarrow> js_error + local_storage" where
  "setItem ls k v =
     (if access_denied ls then Inl SecurityError
      else if quota_exceeded ls then Inl QuotaExceededError
      else Inr (ls\<lparr>items := (items ls)(k \<mapsto> v)\<rparr>))"

section \<open>ProjectService\<close>

definition INITIAL_PROJECTS :: "jsobj list" where
  "INITIAL_PROJECTS =
    [ [''_id'' \<mapsto> JStr ''p1'',
       ''title'' \<mapsto> JStr ''MERN Stack E-Commerce'',
       ''description'' \<mapsto> JStr ''A full-featured shopping platform with user authentication and payment integration.'',
       ''technologies'' \<mapsto> JArr [JStr ''MongoDB'', JStr ''Express'', JStr ''React'', JStr ''Node.js'', JStr ''Stripe''],
       ''liveUrl'' \<mapsto> JStr ''https://example-ecommerce.com'',
       ''githubUrl'' \<mapsto> JStr ''https://github.com/example/ecommerce'',
       ''isContact'' \<mapsto> JBool False,
       ''createdAt'' \<mapsto> JStr ''2024-01-15T00:00:00.000Z''],
      [''_id'' \<mapsto> JStr ''p2'',
       ''title'' \<mapsto> JStr ''Real-Time Chat App'',
       ''description'' \<mapsto> JStr ''Built with Socket.io for instant messaging, demonstrating excellent WebSocket handling.'',
       ''technologies'' \<mapsto> JArr [JStr ''Node.js'', JStr ''Socket.io'', JStr ''React'', JStr ''Tailwind''],
       ''liveUrl'' \<mapsto> JStr ''https://example-chat.com'',
       ''githubUrl'' \<mapsto> JStr ''https://github.com/example/chat-app'',
       ''isContact'' \<mapsto> JBool False,
       ''createdAt'' \<mapsto> JStr ''2024-02-20T00:00:00.000Z''],
      [''_id'' \<mapsto> JStr ''p3'',
       ''title'' \<mapsto> JStr ''Data Visualization Dashboard'',
       ''description'' \<mapsto> JStr ''Interactive dashboard using D3.js and TypeScript to display complex data sets.'',
       ''technologies'' \<mapsto> JArr [JStr ''TypeScript'', JStr ''D3.js'', JStr ''React''],
       ''liveUrl'' \<mapsto> JStr ''https://example-dashboard.com'',
       ''githubUrl'' \<mapsto> JStr ''https://github.com/example/dashboard'',
       ''isContact'' \<mapsto> JBool False,
       ''createdAt'' \<mapsto> JStr ''2024-03-10T00:00:00.000Z''] ]"

subsection \<open>Loading\<close>

text \<open>
  The body of the \<^verbatim>\<open>try\<close> block of \<^verbatim>\<open>loadFromStorage\<close>: \<^verbatim>\<open>getItem\<close> may throw,
  a stored text that is truthy (not empty) is parsed, and the parse may throw. What the
  parse yields is returned as it is, whether it is a collection or not.
\<close>

definition loadFromStorage_try :: "runtime \<Rightarrow> local_storage \<Rightarrow> js_error + jsval" where
  "loadFromStorage_try rt ls =
     (case getItem ls ''portfolio-projects'' of
        Inl e \<Rightarrow> Inl e
      | Inr stored \<Rightarrow>
          (case stored of
             None \<Rightarrow> Inr (JArr (map JObj INITIAL_PROJECTS))
           | Some s \<Rightarrow>
               if s \<noteq> [] then
                 (case json_parse rt s of None \<Rightarrow> Inl SyntaxError | Some v \<Rightarrow> Inr v)
               else Inr (JArr (map JObj INITIAL_PROJECTS))))"

text \<open>The whole method: the \<^verbatim>\<open>catch\<close> clause turns every exception into the fallback.\<close>

definition loadFromStorage :: "runtime \<Rightarrow> local_storage \<Rightarrow> js_error + jsval" where
  "loadFromStorage rt ls =
     (case loadFromStorage_try rt ls of
        Inl e \<Rightarrow> Inr (JArr (map JObj INITIAL_PROJECTS))
      | Inr v \<Rightarrow> Inr v)"

definition loadContactsFromStorage_try :: "runtime \<Rightarrow> local_storage \<Rightarrow> js_error + jsval" where
  "loadContactsFromStorage_try rt ls =
     (case getItem ls ''portfolio-contacts'' of
        Inl e \<Rightarrow> Inl e
      | Inr stored \<Rightarrow>
          (case stored of
             None \<Rightarrow> Inr (JArr [])
           | Some s \<Rightarrow>
               if s \<noteq> [] then
                 (case json_parse rt s of None \<Rightarrow> Inl SyntaxError | Some v \<Rightarrow> Inr v)
               else Inr (JArr [])))"

definition loadContactsFromStorage :: "runtime \<Rightarrow> local_storage \<Rightarrow> js_error + jsval" where
  "loadContactsFromStorage rt ls =
     (case loadContactsFromStorage_try rt ls of
        Inl e \<Rightarrow> Inr (JArr [])
      | Inr v \<Rightarrow> Inr v)"

subsection \<open>The service state\<close>

text \<open>
  The constructor keeps the two loaded values, and every method works on them as arrays
  of records. The state below is that of a service whose two values are collections
  (\<open>JArr (map JObj records)\<close>), held as the lists of their records.
\<close>

record service =
  projects :: "jsobj list"
  contacts :: "jsobj list"
  localStorage :: local_storage

text \<open>
  An asynchronous method either rejects with an exception or resolves with a value; both
  come with the state the service is left in. The simulated delay is a suspension before
  the body; the body after it has no further suspension point and runs as one step.
\<close>

type_synonym 'a promise = "(js_error \<times> service) + ('a \<times> service)"

text \<open>The \<^verbatim>\<open>catch\<close> clause of the two writers only logs: the state stays as it was.\<close>

definition saveToStorage :: "runtime \<Rightarrow> service \<Rightarrow> service" where
  "saveToStorage rt s =
     (case setItem (localStorage s) ''portfolio-projects'' (json_stringify rt (projects s)) of
        Inl e \<Rightarrow> s
      | Inr ls \<Rightarrow> s\<lparr>localStorage := ls\<rparr>)"

definition saveContactsToStorage :: "runtime \<Rightarrow> service \<Rightarrow> service" where
  "saveContactsToStorage rt s =
     (case setItem (localStorage s) ''portfolio-contacts'' (json_stringify rt (contacts s)) of
        Inl e \<Rightarrow> s
      | Inr ls \<Rightarrow> s\<lparr>localStorage := ls\<rparr>)"

subsection \<open>Projects\<close>

text \<open>\<^verbatim>\<open>(a, b) => new Date(b.createdAt) - new Date(a.createdAt)\<close>\<close>

definition by_createdAt :: "runtime \<Rightarrow> jsobj \<Rightarrow> jsobj \<Rightarrow> int option" where
  "by_createdAt rt a b =
     (case date_value rt (js_get b ''createdAt'') of
        None \<Rightarrow> None
      | Some tb \<Rightarrow>
          (case date_value rt (js_get a ''createdAt'') of
             None \<Rightarrow> None
           | Some ta \<Rightarrow> Some (tb - ta)))"

definition fetchAll :: "runtime \<Rightarrow> service \<Rightarrow> (jsobj list) promise" where
  "fetchAll rt s = Inr (array_sort (by_createdAt rt) (projects s), s)"

text \<open>
  The \<^verbatim>\<open>technologies\<close> entry of \<^verbatim>\<open>projectData\<close>: an array is taken as it is; on any
  other value the method \<^verbatim>\<open>split\<close> is called, which only a string has.
\<close>

definition technologies_of :: "jsval \<Rightarrow> js_error + jsval" where
  "technologies_of t =
     (if isArray t then Inr t
      else (case t of
              JStr s \<Rightarrow> Inr (JArr (map JStr (filter (\<lambda>tech. tech \<noteq> []) (map trim (split_on CHR '','' s)))))
            | _ \<Rightarrow> Inl TypeError))"

definition projectData_of :: "clock \<Rightarrow> jsobj \<Rightarrow> jsval \<Rightarrow> jsobj" where
  "projectData_of ck project techs =
     project(''technologies'' \<mapsto> techs,
             ''updatedAt'' \<mapsto> JStr (iso_now ck),
             ''projectImage'' \<mapsto> or_null (js_get project ''projectImage''),
             ''bannerImage'' \<mapsto> or_null (js_get project ''bannerImage''))"

definition save :: "runtime \<Rightarrow> clock \<Rightarrow> jsobj \<Rightarrow> service \<Rightarrow> (jsobj option) promise" where
  "save rt ck project s =
     (case technologies_of (js_get project ''technologies'') of
        Inl e \<Rightarrow> Inl (e, s)
      | Inr techs \<Rightarrow>
          (let projectData = projectData_of ck project techs;
               s1 = (if truthy (js_get project ''_id'')
                     then s\<lparr>projects :=
                            map (\<lambda>p. if strict_eq (js_get p ''_id'') (js_get project ''_id'')
                                      then p ++ projectData else p) (projects s)\<rparr>
                     else s\<lparr>projects :=
                            projectData(''_id'' \<mapsto> JStr (''p'' @ date_now ck @ random_suffix ck),
                                        ''createdAt'' \<mapsto> JStr (iso_later ck)) # projects s\<rparr>);
               s2 = saveToStorage rt s1
           in Inr (if truthy (js_get projectData ''_id'')
                   then find (\<lambda>p. strict_eq (js_get p ''_id'') (js_get projectData ''_id'')) (projects s2)
                   else (case projects s2 of [] \<Rightarrow> None | p # ps \<Rightarrow> Some p),
                   s2)))"

definition delete :: "runtime \<Rightarrow> jsval \<Rightarrow> service \<Rightarrow> unit promise" where
  "delete rt ident s =
     Inr ((), saveToStorage rt
                (s\<lparr>projects := filter (\<lambda>p. \<not> strict_eq (js_get p ''_id'') ident) (projects s)\<rparr>))"

subsection \<open>Contacts\<close>

definition contact :: "runtime \<Rightarrow> clock \<Rightarrow> jsobj \<Rightarrow> service \<Rightarrow> jsobj promise" where
  "contact rt ck data s =
     (let contactData =
            data(''_id'' \<mapsto> JStr (''c'' @ date_now ck @ random_suffix ck),
                 ''createdAt'' \<mapsto> JStr (iso_now ck),
                 ''read'' \<mapsto> JBool False,
                 ''status'' \<mapsto> JStr ''new'');
          s1 = saveContactsToStorage rt (s\<lparr>contacts := contactData # contacts s\<rparr>)
      in Inr ([''success'' \<mapsto> JBool True,
               ''message'' \<mapsto> JStr ''Thank you for your message! I will get back to you soon.'',
               ''contactId'' \<mapsto> js_get contactData ''_id''],
              s1))"

definition getContacts :: "runtime \<Rightarrow> service \<Rightarrow> (jsobj list) promise" where
  "getContacts rt s = Inr (array_sort (by_createdAt rt) (contacts s), s)"

definition markAsRead :: "runtime \<Rightarrow> jsval \<Rightarrow> service \<Rightarrow> bool promise" where
  "markAsRead rt contactId s =
     Inr (True, saveContactsToStorage rt
                  (s\<lparr>contacts :=
                       map (\<lambda>c. if strict_eq (js_get c ''_id'') contactId
                                 then c(''read'' \<mapsto> JBool True, ''status'' \<mapsto> JStr ''read'')
                                 else c) (contacts s)\<rparr>))"

definition markAsReplied :: "runtime \<Rightarrow> jsval \<Rightarrow> service \<Rightarrow> bool promise" where
  "markAsReplied rt contactId s =
     Inr (True, saveContactsToStorage rt
                  (s\<lparr>contacts :=
                       map (\<lambda>c. if strict_eq (js_get c ''_id'') contactId
                                 then c(''status'' \<mapsto> JStr ''replied'')
                                 else c) (contacts s)\<rparr>))"

definition deleteContact :: "runtime \<Rightarrow> jsval \<Rightarrow> service \<Rightarrow> bool promise" where
  "deleteContact rt contactId s =
     Inr (True, saveContactsToStorage rt
                  (s\<lparr>contacts := filter (\<lambda>c. \<not> strict_eq (js_get c ''_id'') contactId) (contacts s)\<rparr>))"

definition getUnreadCount :: "service \<Rightarrow> nat" where
  "getUnreadCount s = length (filter (\<lambda>c. \<not> truthy (js_get c ''read'')) (contacts s))"

subsection \<open>The contact filter of the admin view\<close>

definition filteredContacts :: "string \<Rightarrow> jsobj list \<Rightarrow> jsobj list" where
  "filteredContacts flt cs =
     filter (\<lambda>c.
       if flt = ''all'' then True
       else if flt = ''new'' then \<not> truthy (js_get c ''read'')
       else if flt = ''read'' then
         truthy (js_get c ''read'') \<and> \<not> strict_eq (js_get c ''status'') (JStr ''replied'')
       else if flt = ''replied'' then strict_eq (js_get c ''status'') (JStr ''replied'')
       else True) cs"

section \<open>Sequences of contact operations\<close>

text \<open>
  The four operations that write the contact collection, as the admin view and the
  contact form issue them one after the other. None of them rejects; the state a call
  leaves is the state the next call starts in.
\<close>

datatype contact_op =
    Submit clock jsobj
  | MarkRead jsval
  | MarkReplied jsval
  | DeleteContact jsval

definition settled :: "'a promise \<Rightarrow> service" where
  "settled r = (case r of Inl (e, s) \<Rightarrow> s | Inr (v, s) \<Rightarrow> s)"

fun apply_contact_op :: "runtime \<Rightarrow> contact_op \<Rightarrow> service \<Rightarrow> service" where
  "apply_contact_op rt (Submit ck data) s = settled (contact rt ck data s)"
| "apply_contact_op rt (MarkRead i) s = settled (markAsRead rt i s)"
| "apply_contact_op rt (MarkReplied i) s = settled (markAsReplied rt i s)"
| "apply_contact_op rt (DeleteContact i) s = settled (deleteContact rt i s)"

fun run_contact_ops :: "runtime \<Rightarrow> contact_op list \<Rightarrow> service \<Rightarrow> service" where
  "run_contact_ops rt [] s = s"
| "run_contact_ops rt (x # xs) s = run_contact_ops rt xs (apply_contact_op rt x s)"

section \<open>Sample inputs\<close>

text \<open>
  Concrete inputs on which the properties below are evaluated: a runtime whose
  \<^verbatim>\<open>Date\<close> knows the three creation dates of the initial projects and whose
  \<^verbatim>\<open>JSON.parse\<close> knows four texts (the empty array, \<^verbatim>\<open>null\<close>, an object that is no
  array, and the text of the inbox below), an empty and working \<^verbatim>\<open>localStorage\<close>, a
  service holding the initial projects and no contacts on that medium, a clock reading,
  an inbox of three messages (one new, one read, one replied) with a sequence of
  operations on it, media that hold texts under the two collection keys, the sequence of
  the unread-count example, and a project with images together with an update that only
  retitles it.
\<close>

definition replied_contact :: jsobj where
  "replied_contact = [''_id'' \<mapsto> JStr ''c3'', ''read'' \<mapsto> JBool True, ''status'' \<mapsto> JStr ''replied'']"

definition sample_contacts :: "jsobj list" where
  "sample_contacts =
     [ [''_id'' \<mapsto> JStr ''c1'', ''read'' \<mapsto> JBool False, ''status'' \<mapsto> JStr ''new''],
       [''_id'' \<mapsto> JStr ''c2'', ''read'' \<mapsto> JBool True, ''status'' \<mapsto> JStr ''read''],
       replied_contact ]"

text \<open>A text in double quotes, and the JSON text of the inbox.\<close>

definition quoted :: "string \<Rightarrow> string" where
  "quoted s = CHR 0x22 # s @ [CHR 0x22]"

definition inbox_text :: string where
  "inbox_text =
     ''[{'' @ quoted ''_id'' @ '':'' @ quoted ''c1'' @ '','' @ quoted ''read'' @ '':false,''
           @ quoted ''status'' @ '':'' @ quoted ''new'' @ ''},''
     @ ''{'' @ quoted ''_id'' @ '':'' @ quoted ''c2'' @ '','' @ quoted ''read'' @ '':true,''
           @ quoted ''status'' @ '':'' @ quoted ''read'' @ ''},''
     @ ''{'' @ quoted ''_id'' @ '':'' @ quoted ''c3'' @ '','' @ quoted ''read'' @ '':true,''
           @ quoted ''status'' @ '':'' @ quoted ''replied'' @ ''}]''"

definition object_text :: string where
  "object_text = ''{'' @ quoted ''a'' @ '':1}''"

definition sample_runtime :: runtime where
  "sample_runtime =
     \<lparr>json_parse = (\<lambda>s. if s = ''[]'' then Some (JArr [])
                        else if s = ''null'' then Some JNull
                        else if s = object_text then Some (JObj [''a'' \<mapsto> JNum 1])
                        else if s = inbox_text then Some (JArr (map JObj sample_contacts))
                        else None),
      json_stringify = (\<lambda>xs. replicate (length xs) CHR ''o''),
      date_value = (\<lambda>v. case v of
                         JStr s \<Rightarrow> map_of [(''2024-01-15T00:00:00.000Z'', 1705276800000),
                                          (''2024-02-20T00:00:00.000Z'', 1708387200000),
                                          (''2024-03-10T00:00:00.000Z'', 1710028800000)] s
                       | _ \<Rightarrow> None)\<rparr>"

definition empty_storage :: local_storage where
  "empty_storage = \<lparr>items = Map.empty, access_denied = False, quota_exceeded = False\<rparr>"

definition sample_service :: service where
  "sample_service = \<lparr>projects = INITIAL_PROJECTS, contacts = [], localStorage = empty_storage\<rparr>"

definition sample_clock :: "string \<Rightarrow> clock" where
  "sample_clock n =
     \<lparr>date_now = ''170000000000'' @ n, random_suffix = ''k3x9q0z1a'',
      iso_now = ''2023-11-14T22:13:20.00'' @ n @ ''Z'',
      iso_later = ''2023-11-14T22:13:20.00'' @ n @ ''Z''\<rparr>"

definition stocked_storage :: local_storage where
  "stocked_storage =
     \<lparr>items = [''portfolio-projects'' \<mapsto> ''{oops'', ''portfolio-contacts'' \<mapsto> inbox_text],
      access_denied = False, quota_exceeded = False\<rparr>"

definition spoilt_storage :: local_storage where
  "spoilt_storage =
     \<lparr>items = [''portfolio-projects'' \<mapsto> ''null'', ''portfolio-contacts'' \<mapsto> object_text],
      access_denied = False, quota_exceeded = False\<rparr>"



definition three_submitted :: "contact_op list" where
  "three_submitted =
     [Submit (sample_clock ''1'') [''name'' \<mapsto> JStr ''Ann''],
      Submit (sample_clock ''2'') [''name'' \<mapsto> JStr ''Bob''],
      Submit (sample_clock ''3'') [''name'' \<mapsto> JStr ''Cy''],
      MarkRead (JStr ''c1700000000002k3x9q0z1a''),
      DeleteContact (JStr ''c1700000000003k3x9q0z1a'')]"

definition gallery_project :: jsobj where
  "gallery_project =
     [''_id'' \<mapsto> JStr ''p5'',
      ''title'' \<mapsto> JStr ''Gallery'',
      ''technologies'' \<mapsto> JArr [JStr ''React''],
      ''liveUrl'' \<mapsto> JStr ''https://example-gallery.com'',
      ''projectImage'' \<mapsto> JStr ''blob:cover'',
      ''bannerImage'' \<mapsto> JRef 7,
      ''createdAt'' \<mapsto> JStr ''2024-03-10T00:00:00.000Z'',
      ''updatedAt'' \<mapsto> JStr ''2024-03-10T00:00:00.000Z'']"

definition gallery_service :: service where
  "gallery_service = \<lparr>projects = [gallery_project], contacts = [], localStorage = empty_storage\<rparr>"

definition retitle_input :: jsobj where
  "retitle_input = [''_id'' \<mapsto> JStr ''p5'', ''title'' \<mapsto> JStr ''X'', ''technologies'' \<mapsto> JArr [JStr ''React'']]"

section \<open>Properties\<close>

subsection \<open>Basic facts\<close>

lemma strict_eq_JStr: "strict_eq v (JStr x) = (v = JStr x)"
  by (cases v) auto

lemma strict_eq_imp_eq: "strict_eq a b \<Longrightarrow> a = b"
  by (cases a) auto

lemma projects_saveToStorage: "projects (saveToStorage rt s) = projects s"
  by (simp add: saveToStorage_def split: sum.splits)

lemma contacts_saveToStorage: "contacts (saveToStorage rt s) = contacts s"
  by (simp add: saveToStorage_def split: sum.splits)

lemma projects_saveContactsToStorage: "projects (saveContactsToStorage rt s) = projects s"
  by (simp add: saveContactsToStorage_def split: sum.splits)

lemma contacts_saveContactsToStorage: "contacts (saveContactsToStorage rt s) = contacts s"
  by (simp add: saveContactsToStorage_def split: sum.splits)

lemma saveToStorage_idem: "saveToStorage rt (saveToStorage rt s) = saveToStorage rt s"
  by (simp add: saveToStorage_def setItem_def)

lemma filter_absent: "\<forall>x\<in>set xs. \<not> P x \<Longrightarrow> filter (\<lambda>x. \<not> P x) xs = xs"
  by (induction xs) auto

lemma map_absent: "\<forall>x\<in>set xs. \<not> P x \<Longrightarrow> map (\<lambda>x. if P x then f x else x) xs = xs"
  by (induction xs) auto

subsection \<open>Sorting\<close>








text \<open>The initial projects are stored oldest first and fetched newest first.\<close>

lemma fetchAll_initial_order:
  "(case fetchAll sample_runtime sample_service of
      Inl e \<Rightarrow> []
    | Inr (r, s) \<Rightarrow> map (\<lambda>p. js_get p ''_id'') r) = [JStr ''p3'', JStr ''p2'', JStr ''p1'']"
  by (simp add: fetchAll_def array_sort_def by_createdAt_def sample_service_def sample_runtime_def
      INITIAL_PROJECTS_def js_get_def)

subsection \<open>Loading\<close>

text \<open>
  Claim C7, as amended. Whatever the medium holds under the collection key,
  \<^verbatim>\<open>loadFromStorage\<close> and \<^verbatim>\<open>loadContactsFromStorage\<close> return a value and never raise.
  When a non-empty text is stored and parses, the value is what the text deserializes to,
  as it is: the collection when the text is that of a collection, and any other value
  (\<^verbatim>\<open>null\<close>, a number, an object) just the same. The value is the fallback (the initial
  projects; the empty list for the contacts) when the medium cannot be read, when nothing
  or the empty text is stored, and when the stored text does not parse.
\<close>

theorem load_parsed_or_fallback:
  "loadFromStorage rt ls =
     Inr (if access_denied ls then JArr (map JObj INITIAL_PROJECTS)
          else (case items ls ''portfolio-projects'' of
                  None \<Rightarrow> JArr (map JObj INITIAL_PROJECTS)
                | Some txt \<Rightarrow>
                    if txt = [] then JArr (map JObj INITIAL_PROJECTS)
                    else (case json_parse rt txt of
                            None \<Rightarrow> JArr (map JObj INITIAL_PROJECTS)
                          | Some v \<Rightarrow> v)))
   \<and> loadContactsFromStorage rt ls =
     Inr (if access_denied ls then JArr []
          else (case items ls ''portfolio-contacts'' of
                  None \<Rightarrow> JArr []
                | Some txt \<Rightarrow>
                    if txt = [] then JArr []
                    else (case json_parse rt txt of None \<Rightarrow> JArr [] | Some v \<Rightarrow> v)))"
  by (simp add: loadFromStorage_def loadFromStorage_try_def loadContactsFromStorage_def
      loadContactsFromStorage_try_def getItem_def split: option.splits)

lemma sample_texts_differ:
  "inbox_text \<noteq> []" "inbox_text \<noteq> ''[]''" "inbox_text \<noteq> ''null''" "inbox_text \<noteq> object_text"
  "object_text \<noteq> []" "object_text \<noteq> ''[]''" "object_text \<noteq> ''null''"
  by (simp_all add: inbox_text_def object_text_def quoted_def)

text \<open>
  A medium that holds a text that does not parse under the project key and the text of
  the three-message inbox under the contact key: the projects are the fallback, the
  contacts are the stored inbox. With the medium denied, both are the fallback.
\<close>

theorem load_parsed_or_fallback_witness:
  "loadFromStorage sample_runtime stocked_storage = Inr (JArr (map JObj INITIAL_PROJECTS))
   \<and> loadContactsFromStorage sample_runtime stocked_storage = Inr (JArr (map JObj sample_contacts))
   \<and> loadFromStorage sample_runtime (stocked_storage\<lparr>access_denied := True\<rparr>)
       = Inr (JArr (map JObj INITIAL_PROJECTS))
   \<and> loadContactsFromStorage sample_runtime (stocked_storage\<lparr>access_denied := True\<rparr>) = Inr (JArr [])
   \<and> loadFromStorage sample_runtime empty_storage = Inr (JArr (map JObj INITIAL_PROJECTS))
   \<and> loadContactsFromStorage sample_runtime empty_storage = Inr (JArr [])"
proof -
  have p: "json_parse sample_runtime ''{oops'' = None"
    "json_parse sample_runtime inbox_text = Some (JArr (map JObj sample_contacts))"
    by (simp_all add: sample_runtime_def sample_texts_differ)
      (simp add: object_text_def inbox_text_def quoted_def)
  have i: "items stocked_storage ''portfolio-projects'' = Some ''{oops''"
    "items stocked_storage ''portfolio-contacts'' = Some inbox_text"
    "access_denied stocked_storage = False"
    "items empty_storage = Map.empty" "access_denied empty_storage = False"
    by (simp_all add: stocked_storage_def empty_storage_def)
  show ?thesis
    using load_parsed_or_fallback[of sample_runtime stocked_storage]
      load_parsed_or_fallback[of sample_runtime "stocked_storage\<lparr>access_denied := True\<rparr>"]
      load_parsed_or_fallback[of sample_runtime empty_storage]
    by (simp add: p i sample_texts_differ)
qed

text \<open>
  Claim C7 as stated fails on a stored text that parses to something other than a
  collection: with \<^verbatim>\<open>null\<close> stored under the project key and the text of an object under
  the contact key, the loaders return \<^verbatim>\<open>null\<close> and the object, which are neither a
  collection (an array) nor the fallback.
\<close>

theorem load_returns_non_collection:
  "loadFromStorage sample_runtime spoilt_storage = Inr JNull
   \<and> \<not> isArray JNull
   \<and> JNull \<noteq> JArr (map JObj INITIAL_PROJECTS)
   \<and> loadContactsFromStorage sample_runtime spoilt_storage = Inr (JObj [''a'' \<mapsto> JNum 1])
   \<and> \<not> isArray (JObj [''a'' \<mapsto> JNum 1])
   \<and> JObj [''a'' \<mapsto> JNum 1] \<noteq> JArr []"
  by (simp add: loadFromStorage_def loadFromStorage_try_def loadContactsFromStorage_def
      loadContactsFromStorage_try_def getItem_def sample_runtime_def spoilt_storage_def
      sample_texts_differ)

subsection \<open>The contact filter\<close>

text \<open>
  Claim C8. On a contact collection of the data model (every \<^verbatim>\<open>read\<close> is a boolean) the
  filter selects: with \<^verbatim>\<open>all\<close> every message; with \<^verbatim>\<open>new\<close> the messages whose
  \<^verbatim>\<open>read\<close> is false; with \<^verbatim>\<open>read\<close> the messages with \<^verbatim>\<open>read === true\<close> and
  \<^verbatim>\<open>status !== 'replied'\<close>; with \<^verbatim>\<open>replied\<close> the messages with
  \<^verbatim>\<open>status === 'replied'\<close>; each in the order of the collection.
\<close>

theorem filteredContacts_selects:
  assumes "\<forall>c\<in>set cs. isBoolean (js_get c ''read'')"
  shows "filteredContacts ''all'' cs = cs
     \<and> filteredContacts ''new'' cs = filter (\<lambda>c. js_get c ''read'' = JBool False) cs
     \<and> filteredContacts ''read'' cs =
         filter (\<lambda>c. js_get c ''read'' = JBool True \<and> js_get c ''status'' \<noteq> JStr ''replied'') cs
     \<and> filteredContacts ''replied'' cs = filter (\<lambda>c. js_get c ''status'' = JStr ''replied'') cs"
proof -
  have b: "truthy (js_get c ''read'') = (js_get c ''read'' = JBool True)"
    and nb: "(\<not> truthy (js_get c ''read'')) = (js_get c ''read'' = JBool False)"
    if "c \<in> set cs" for c
    using assms that by (cases "js_get c ''read''"; auto)+
  have 1: "filteredContacts ''all'' cs = cs"
    by (simp add: filteredContacts_def)
  have 2: "filteredContacts ''new'' cs = filter (\<lambda>c. js_get c ''read'' = JBool False) cs"
    unfolding filteredContacts_def by (rule filter_cong) (simp_all add: nb)
  have 3: "filteredContacts ''read'' cs =
      filter (\<lambda>c. js_get c ''read'' = JBool True \<and> js_get c ''status'' \<noteq> JStr ''replied'') cs"
    unfolding filteredContacts_def by (rule filter_cong) (simp_all add: b strict_eq_JStr)
  have 4: "filteredContacts ''replied'' cs = filter (\<lambda>c. js_get c ''status'' = JStr ''replied'') cs"
    unfolding filteredContacts_def by (rule filter_cong) (simp_all add: strict_eq_JStr)
  from 1 2 3 4 show ?thesis by blast
qed

theorem filteredContacts_selects_witness:
  "map (\<lambda>c. js_get c ''_id'') (filteredContacts ''all'' sample_contacts) = [JStr ''c1'', JStr ''c2'', JStr ''c3'']
   \<and> map (\<lambda>c. js_get c ''_id'') (filteredContacts ''new'' sample_contacts) = [JStr ''c1'']
   \<and> map (\<lambda>c. js_get c ''_id'') (filteredContacts ''read'' sample_contacts) = [JStr ''c2'']
   \<and> map (\<lambda>c. js_get c ''_id'') (filteredContacts ''replied'' sample_contacts) = [JStr ''c3'']"
proof -
  have h: "\<forall>c\<in>set sample_contacts. isBoolean (js_get c ''read'')"
    by (simp add: sample_contacts_def replied_contact_def js_get_def)
  show ?thesis
    using filteredContacts_selects[OF h]
    by (simp add: sample_contacts_def replied_contact_def js_get_def)
qed

subsection \<open>Saving a project\<close>

text \<open>
  Claim C9. When the input's \<^verbatim>\<open>technologies\<close> is neither an array nor a string (absent,
  for one), \<^verbatim>\<open>save\<close> rejects with a \<^verbatim>\<open>TypeError\<close> and the service, its collections
  and the durable medium are what they were before the call.
\<close>

theorem save_requires_technologies:
  assumes "\<not> isArray (js_get project ''technologies'')"
    and "\<not> isString (js_get project ''technologies'')"
  shows "save rt ck project s = Inl (TypeError, s)"
  using assms
  by (cases "js_get project ''technologies''") (simp_all add: save_def technologies_of_def)

theorem save_requires_technologies_witness:
  "save sample_runtime (sample_clock ''1'') [''_id'' \<mapsto> JStr ''p1'', ''title'' \<mapsto> JStr ''X''] sample_service
     = Inl (TypeError, sample_service)"
  using save_requires_technologies[of "[''_id'' \<mapsto> JStr ''p1'', ''title'' \<mapsto> JStr ''X'']"
      sample_runtime "sample_clock ''1''" sample_service]
  by (simp add: js_get_def)



subsection \<open>Unknown ids\<close>

text \<open>
  Claim C6. For an id that no record of the collection has, \<^verbatim>\<open>delete\<close> (on the
  projects) and \<^verbatim>\<open>markAsRead\<close>, \<^verbatim>\<open>markAsReplied\<close> and \<^verbatim>\<open>deleteContact\<close> (on the
  contacts) resolve without an error and leave both collections as they were. And for any
  id, a second \<^verbatim>\<open>delete\<close> right after the first resolves too and leaves the service
  exactly as the first call left it.
\<close>

theorem unknown_id_is_noop:
  "((\<forall>p\<in>set (projects s). \<not> strict_eq (js_get p ''_id'') ident) \<longrightarrow>
      (\<exists>s'. delete rt ident s = Inr ((), s') \<and> projects s' = projects s \<and> contacts s' = contacts s))
   \<and> ((\<forall>c\<in>set (contacts s). \<not> strict_eq (js_get c ''_id'') ident) \<longrightarrow>
      (\<exists>s'. markAsRead rt ident s = Inr (True, s') \<and> projects s' = projects s \<and> contacts s' = contacts s)
      \<and> (\<exists>s'. markAsReplied rt ident s = Inr (True, s') \<and> projects s' = projects s \<and> contacts s' = contacts s)
      \<and> (\<exists>s'. deleteContact rt ident s = Inr (True, s') \<and> projects s' = projects s \<and> contacts s' = contacts s))
   \<and> (\<exists>s1. delete rt ident s = Inr ((), s1) \<and> delete rt ident s1 = Inr ((), s1))"
proof (intro conjI impI)
  assume a: "\<forall>p\<in>set (projects s). \<not> strict_eq (js_get p ''_id'') ident"
  show "\<exists>s'. delete rt ident s = Inr ((), s') \<and> projects s' = projects s \<and> contacts s' = contacts s"
    by (simp add: delete_def projects_saveToStorage contacts_saveToStorage filter_absent[OF a])
next
  assume a: "\<forall>c\<in>set (contacts s). \<not> strict_eq (js_get c ''_id'') ident"
  show "\<exists>s'. markAsRead rt ident s = Inr (True, s') \<and> projects s' = projects s \<and> contacts s' = contacts s"
    by (simp add: markAsRead_def projects_saveContactsToStorage contacts_saveContactsToStorage
        map_absent[OF a])
  show "\<exists>s'. markAsReplied rt ident s = Inr (True, s') \<and> projects s' = projects s \<and> contacts s' = contacts s"
    by (simp add: markAsReplied_def projects_saveContactsToStorage contacts_saveContactsToStorage
        map_absent[OF a])
  show "\<exists>s'. deleteContact rt ident s = Inr (True, s') \<and> projects s' = projects s \<and> contacts s' = contacts s"
    by (simp add: deleteContact_def projects_saveContactsToStorage contacts_saveContactsToStorage
        filter_absent[OF a])
next
  let ?s1 = "saveToStorage rt
      (s\<lparr>projects := filter (\<lambda>p. \<not> strict_eq (js_get p ''_id'') ident) (projects s)\<rparr>)"
  have "?s1\<lparr>projects := filter (\<lambda>p. \<not> strict_eq (js_get p ''_id'') ident) (projects ?s1)\<rparr> = ?s1"
    by (simp add: projects_saveToStorage)
  then have "delete rt ident ?s1 = Inr ((), ?s1)"
    by (simp add: delete_def saveToStorage_idem)
  then show "\<exists>s1. delete rt ident s = Inr ((), s1) \<and> delete rt ident s1 = Inr ((), s1)"
    by (simp add: delete_def)
qed

theorem unknown_id_is_noop_witness:
  "(\<exists>s'. delete sample_runtime (JStr ''p7'') sample_service = Inr ((), s')
        \<and> projects s' = INITIAL_PROJECTS \<and> contacts s' = [])
   \<and> (\<exists>s'. markAsRead sample_runtime (JStr ''p7'') sample_service = Inr (True, s')
        \<and> projects s' = INITIAL_PROJECTS \<and> contacts s' = [])
   \<and> (\<exists>s'. markAsReplied sample_runtime (JStr ''p7'') sample_service = Inr (True, s')
        \<and> projects s' = INITIAL_PROJECTS \<and> contacts s' = [])
   \<and> (\<exists>s'. deleteContact sample_runtime (JStr ''p7'') sample_service = Inr (True, s')
        \<and> projects s' = INITIAL_PROJECTS \<and> contacts s' = [])
   \<and> (\<exists>s1. delete sample_runtime (JStr ''p7'') sample_service = Inr ((), s1)
        \<and> delete sample_runtime (JStr ''p7'') s1 = Inr ((), s1))"
proof -
  have p: "\<forall>p\<in>set (projects sample_service). \<not> strict_eq (js_get p ''_id'') (JStr ''p7'')"
    by (simp add: sample_service_def INITIAL_PROJECTS_def js_get_def)
  have c: "\<forall>c\<in>set (contacts sample_service). \<not> strict_eq (js_get c ''_id'') (JStr ''p7'')"
    by (simp add: sample_service_def)
  have v: "projects sample_service = INITIAL_PROJECTS" "contacts sample_service = []"
    by (simp_all add: sample_service_def)
  show ?thesis
    using unknown_id_is_noop[of sample_service "JStr ''p7''" sample_runtime] p c
    unfolding v by blast
qed

subsection \<open>The life cycle of a contact message\<close>



subsection \<open>The unread count\<close>

lemma unread_as_false:
  assumes "\<forall>c\<in>set (contacts s). isBoolean (js_get c ''read'')"
  shows "getUnreadCount s = length (filter (\<lambda>c. js_get c ''read'' = JBool False) (contacts s))"
proof -
  have "filter (\<lambda>c. \<not> truthy (js_get c ''read'')) (contacts s)
      = filter (\<lambda>c. js_get c ''read'' = JBool False) (contacts s)"
  proof (rule filter_cong)
    fix c assume "c \<in> set (contacts s)"
    with assms have "isBoolean (js_get c ''read'')" by blast
    then show "(\<not> truthy (js_get c ''read'')) = (js_get c ''read'' = JBool False)"
      by (cases "js_get c ''read''") auto
  qed simp
  then show ?thesis by (simp add: getUnreadCount_def)
qed

lemma apply_contact_op_boolean:
  assumes "\<forall>c\<in>set (contacts s). isBoolean (js_get c ''read'')"
  shows "\<forall>c\<in>set (contacts (apply_contact_op rt x s)). isBoolean (js_get c ''read'')"
  using assms
  by (cases x)
    (auto simp: settled_def contact_def markAsRead_def markAsReplied_def deleteContact_def
      contacts_saveContactsToStorage js_get_def Let_def)

lemma run_contact_ops_boolean:
  assumes "\<forall>c\<in>set (contacts s). isBoolean (js_get c ''read'')"
  shows "\<forall>c\<in>set (contacts (run_contact_ops rt xs s)). isBoolean (js_get c ''read'')"
  using assms
proof (induction xs arbitrary: s)
  case Nil
  then show ?case by simp
next
  case (Cons x xs)
  from Cons.prems have "\<forall>c\<in>set (contacts (apply_contact_op rt x s)). isBoolean (js_get c ''read'')"
    by (rule apply_contact_op_boolean)
  then show ?case
    using Cons.IH by simp
qed

text \<open>
  Claim C4. Starting from a contact collection as the service itself writes it (every
  \<^verbatim>\<open>read\<close> a boolean; the empty collection of a fresh medium is one), after every
  sequence of \<^verbatim>\<open>contact\<close>, \<^verbatim>\<open>markAsRead\<close>, \<^verbatim>\<open>markAsReplied\<close> and
  \<^verbatim>\<open>deleteContact\<close> calls \<^verbatim>\<open>getUnreadCount\<close> is the number of messages of the
  collection whose \<^verbatim>\<open>read\<close> is \<^verbatim>\<open>false\<close>.
\<close>

theorem unreadCount_counts_unread:
  assumes "\<forall>c\<in>set (contacts s). isBoolean (js_get c ''read'')"
  shows "getUnreadCount (run_contact_ops rt xs s)
           = length (filter (\<lambda>c. js_get c ''read'' = JBool False) (contacts (run_contact_ops rt xs s)))"
  using assms by (intro unread_as_false run_contact_ops_boolean)

text \<open>
  The example of the specification: three messages submitted and the second marked read
  leave two unread; deleting an unread one leaves one.
\<close>

lemma three_submitted_read_flags:
  "map (\<lambda>c. js_get c ''read'') (contacts (run_contact_ops sample_runtime (take 4 three_submitted) sample_service))
     = [JBool False, JBool True, JBool False]
   \<and> map (\<lambda>c. js_get c ''read'') (contacts (run_contact_ops sample_runtime three_submitted sample_service))
     = [JBool True, JBool False]"
  by (simp add: three_submitted_def settled_def contact_def markAsRead_def deleteContact_def
      contacts_saveContactsToStorage sample_service_def sample_clock_def js_get_def Let_def)

theorem unreadCount_counts_unread_witness:
  "getUnreadCount (run_contact_ops sample_runtime (take 4 three_submitted) sample_service) = 2
   \<and> getUnreadCount (run_contact_ops sample_runtime three_submitted sample_service) = 1"
proof -
  have h: "\<forall>c\<in>set (contacts sample_service). isBoolean (js_get c ''read'')"
    by (simp add: sample_service_def)
  have f: "length (filter (\<lambda>v. v = JBool False) (map (\<lambda>c. js_get c ''read'') xs))
         = length (filter (\<lambda>c. js_get c ''read'' = JBool False) xs)" for xs :: "jsobj list"
    by (induction xs) auto
  show ?thesis
    using unreadCount_counts_unread[OF h, of sample_runtime "take 4 three_submitted"]
      unreadCount_counts_unread[OF h, of sample_runtime three_submitted]
      three_submitted_read_flags
    by (simp flip: f)
qed

subsection \<open>Replied messages\<close>






subsection \<open>Updating a project\<close>

lemma technologies_of_ok:
  assumes "isArray t \<or> isString t"
  shows "\<exists>techs. technologies_of t = Inr techs"
  using assms by (cases t) (auto simp: technologies_of_def)

lemma find_after_merge:
  assumes "P \<in> set ps" and "strict_eq (js_get P ''_id'') i"
    and "\<And>p. strict_eq (js_get p ''_id'') i \<Longrightarrow> strict_eq (js_get (f p) ''_id'') i"
  shows "\<exists>P'. find (\<lambda>p. strict_eq (js_get p ''_id'') i) ps = Some P'
           \<and> find (\<lambda>p. strict_eq (js_get p ''_id'') i)
                (map (\<lambda>p. if strict_eq (js_get p ''_id'') i then f p else p) ps) = Some (f P')"
  using assms(1,2)
proof (induction ps)
  case Nil
  then show ?case by simp
next
  case (Cons q qs)
  show ?case
  proof (cases "strict_eq (js_get q ''_id'') i")
    case True
    then show ?thesis by (simp add: assms(3))
  next
    case False
    with Cons.prems have "P \<in> set qs" by auto
    with Cons.IH Cons.prems(2) False show ?thesis by simp
  qed
qed

lemma merged_id:
  assumes "truthy (js_get project ''_id'')"
  shows "js_get (p ++ projectData_of ck project techs) ''_id'' = js_get project ''_id''"
proof -
  from assms obtain v where "project ''_id'' = Some v"
    by (cases "project ''_id''") (auto simp: js_get_def)
  then show ?thesis
    by (simp add: js_get_def projectData_of_def map_add_def)
qed

lemma projectData_id:
  "js_get (projectData_of ck project techs) ''_id'' = js_get project ''_id''"
  by (simp add: js_get_def projectData_of_def)

lemma find_SomeD: "find Q xs = Some x \<Longrightarrow> x \<in> set xs \<and> Q x"
  by (induction xs) (auto split: if_splits)

lemma strict_eq_self: "strict_eq a b \<Longrightarrow> strict_eq b b"
  by (cases a) auto

text \<open>
  Claim C1, as amended. For a project \<open>P\<close> of the collection and an input that carries
  \<open>P\<close>'s id and whose \<^verbatim>\<open>technologies\<close> is an array or a string, \<^verbatim>\<open>save\<close> replaces
  \<open>P\<close> by the merge \<open>M\<close> of the input onto \<open>P\<close>: every property the input carries is
  taken from the input, \<^verbatim>\<open>technologies\<close> is the normalised list, \<^verbatim>\<open>updatedAt\<close> is now,
  \<^verbatim>\<open>projectImage\<close> and \<^verbatim>\<open>bannerImage\<close> are the input's value when it is truthy and
  \<^verbatim>\<open>null\<close> otherwise, and every other property of \<open>P\<close> that the input does not carry
  (\<^verbatim>\<open>createdAt\<close> among them) is preserved. The call resolves with a record of the stored
  collection: the merge of the first record that carries the id.
\<close>

theorem save_update_merge:
  assumes "truthy (js_get project ''_id'')"
    and "isArray (js_get project ''technologies'') \<or> isString (js_get project ''technologies'')"
    and "P \<in> set (projects s)"
    and "strict_eq (js_get P ''_id'') (js_get project ''_id'')"
  shows "\<exists>techs M r s'.
      technologies_of (js_get project ''technologies'') = Inr techs
    \<and> M = P ++ projectData_of ck project techs
    \<and> save rt ck project s = Inr (Some r, s')
    \<and> projects s' = map (\<lambda>p. if strict_eq (js_get p ''_id'') (js_get project ''_id'')
                               then p ++ projectData_of ck project techs else p) (projects s)
    \<and> contacts s' = contacts s
    \<and> M \<in> set (projects s')
    \<and> r \<in> set (projects s')
    \<and> js_get r ''_id'' = js_get project ''_id''
    \<and> (\<exists>P'. find (\<lambda>p. strict_eq (js_get p ''_id'') (js_get project ''_id'')) (projects s) = Some P'
             \<and> r = P' ++ projectData_of ck project techs)
    \<and> (\<forall>k. project k = None \<and> k \<notin> {''technologies'', ''updatedAt'', ''projectImage'', ''bannerImage''}
            \<longrightarrow> M k = P k)
    \<and> (\<forall>k. project k \<noteq> None \<and> k \<notin> {''technologies'', ''updatedAt'', ''projectImage'', ''bannerImage''}
            \<longrightarrow> M k = project k)
    \<and> js_get M ''technologies'' = techs
    \<and> js_get M ''updatedAt'' = JStr (iso_now ck)
    \<and> js_get M ''projectImage'' = or_null (js_get project ''projectImage'')
    \<and> js_get M ''bannerImage'' = or_null (js_get project ''bannerImage'')
    \<and> (project ''createdAt'' = None \<longrightarrow> js_get M ''createdAt'' = js_get P ''createdAt'')"
proof -
  let ?i = "js_get project ''_id''"
  obtain techs where t: "technologies_of (js_get project ''technologies'') = Inr techs"
    using technologies_of_ok[OF assms(2)] by blast
  let ?pd = "projectData_of ck project techs"
  let ?M = "P ++ ?pd"
  let ?ps' = "map (\<lambda>p. if strict_eq (js_get p ''_id'') ?i then p ++ ?pd else p) (projects s)"
  let ?s' = "saveToStorage rt (s\<lparr>projects := ?ps'\<rparr>)"
  have ii: "strict_eq ?i ?i"
    using assms(4) by (rule strict_eq_self)
  have keep: "strict_eq (js_get (p ++ ?pd) ''_id'') ?i" for p
    using ii by (simp add: merged_id[OF assms(1)])
  obtain P' where f: "find (\<lambda>p. strict_eq (js_get p ''_id'') ?i) (projects s) = Some P'"
    and f': "find (\<lambda>p. strict_eq (js_get p ''_id'') ?i) ?ps' = Some (P' ++ ?pd)"
    using find_after_merge[OF assms(3,4), of "\<lambda>p. p ++ ?pd"] keep by blast
  have sv: "save rt ck project s = Inr (Some (P' ++ ?pd), ?s')"
    using assms(1) by (simp add: save_def t Let_def projectData_id projects_saveToStorage f')
  have ps: "projects ?s' = ?ps'" and cs: "contacts ?s' = contacts s"
    by (simp_all add: projects_saveToStorage contacts_saveToStorage)
  have inM: "?M \<in> set ?ps'"
    using assms(3,4) by (auto simp: image_iff intro!: bexI[of _ P])
  have inr: "P' ++ ?pd \<in> set ?ps'"
    using find_SomeD[OF f'] by blast
  have frame: "\<forall>k. project k = None \<and> k \<notin> {''technologies'', ''updatedAt'', ''projectImage'', ''bannerImage''}
            \<longrightarrow> ?M k = P k"
    by (simp add: projectData_of_def map_add_def)
  have given: "\<forall>k. project k \<noteq> None \<and> k \<notin> {''technologies'', ''updatedAt'', ''projectImage'', ''bannerImage''}
            \<longrightarrow> ?M k = project k"
    by (auto simp: projectData_of_def map_add_def)
  have fields: "js_get ?M ''technologies'' = techs" "js_get ?M ''updatedAt'' = JStr (iso_now ck)"
    "js_get ?M ''projectImage'' = or_null (js_get project ''projectImage'')"
    "js_get ?M ''bannerImage'' = or_null (js_get project ''bannerImage'')"
    by (simp_all add: js_get_def projectData_of_def map_add_def)
  have created: "project ''createdAt'' = None \<longrightarrow> js_get ?M ''createdAt'' = js_get P ''createdAt''"
    by (simp add: js_get_def projectData_of_def map_add_def)
  have rid: "js_get (P' ++ ?pd) ''_id'' = ?i"
    by (rule merged_id[OF assms(1)])
  show ?thesis
    using t sv ps cs inM inr f frame given fields created rid
    by (intro exI[of _ techs] exI[of _ ?M] exI[of _ "P' ++ ?pd"] exI[of _ ?s']) simp
qed


theorem save_update_merge_witness:
  "\<exists>r s'. save sample_runtime (sample_clock ''1'') retitle_input gallery_service = Inr (Some r, s')
      \<and> js_get r ''_id'' = JStr ''p5''
      \<and> js_get r ''title'' = JStr ''X''
      \<and> js_get r ''liveUrl'' = JStr ''https://example-gallery.com''
      \<and> js_get r ''createdAt'' = JStr ''2024-03-10T00:00:00.000Z''
      \<and> js_get r ''updatedAt'' = JStr ''2023-11-14T22:13:20.001Z''
      \<and> js_get r ''projectImage'' = JNull"
proof -
  have h1: "truthy (js_get retitle_input ''_id'')"
    by (simp add: retitle_input_def js_get_def)
  have h2: "isArray (js_get retitle_input ''technologies'') \<or> isString (js_get retitle_input ''technologies'')"
    by (simp add: retitle_input_def js_get_def)
  have h3: "gallery_project \<in> set (projects gallery_service)"
    by (simp add: gallery_service_def)
  have h4: "strict_eq (js_get gallery_project ''_id'') (js_get retitle_input ''_id'')"
    by (simp add: gallery_project_def retitle_input_def js_get_def)
  from save_update_merge[OF h1 h2 h3 h4, where rt = sample_runtime and ck = "sample_clock ''1''"]
  obtain techs r s' P' where
    sv: "save sample_runtime (sample_clock ''1'') retitle_input gallery_service = Inr (Some r, s')"
    and f: "find (\<lambda>p. strict_eq (js_get p ''_id'') (js_get retitle_input ''_id''))
              (projects gallery_service) = Some P'"
    and r: "r = P' ++ projectData_of (sample_clock ''1'') retitle_input techs"
    by blast
  from f h4 have P': "P' = gallery_project"
    by (simp add: gallery_service_def)
  have "js_get r ''_id'' = JStr ''p5''" "js_get r ''title'' = JStr ''X''"
    "js_get r ''liveUrl'' = JStr ''https://example-gallery.com''"
    "js_get r ''createdAt'' = JStr ''2024-03-10T00:00:00.000Z''"
    "js_get r ''updatedAt'' = JStr ''2023-11-14T22:13:20.001Z''"
    "js_get r ''projectImage'' = JNull"
    by (simp_all add: r P' gallery_project_def retitle_input_def projectData_of_def sample_clock_def
        js_get_def or_null_def map_add_def)
  with sv show ?thesis by blast
qed

text \<open>
  Claim C1 as stated fails on the images: an update whose input carries neither
  \<^verbatim>\<open>projectImage\<close> nor \<^verbatim>\<open>bannerImage\<close> stores and returns the record with both set to
  \<^verbatim>\<open>null\<close>, where the claim has them preserved.
\<close>

theorem save_update_clears_images:
  "(case save sample_runtime (sample_clock ''1'') retitle_input gallery_service of
      Inl e \<Rightarrow> None
    | Inr (r, s') \<Rightarrow>
        map_option (\<lambda>p. (js_get p ''title'', js_get p ''projectImage'', js_get p ''bannerImage'')) r)
     = Some (JStr ''X'', JNull, JNull)
   \<and> (case save sample_runtime (sample_clock ''1'') retitle_input gallery_service of
      Inl e \<Rightarrow> []
    | Inr (r, s') \<Rightarrow>
        map (\<lambda>p. (js_get p ''title'', js_get p ''projectImage'', js_get p ''bannerImage'')) (projects s'))
     = [(JStr ''X'', JNull, JNull)]
   \<and> map (\<lambda>p. (js_get p ''title'', js_get p ''projectImage'', js_get p ''bannerImage''))
        (projects gallery_service) = [(JStr ''Gallery'', JStr ''blob:cover'', JRef 7)]
   \<and> retitle_input ''projectImage'' = None \<and> retitle_input ''bannerImage'' = None"
  by (simp add: save_def technologies_of_def projectData_of_def Let_def projects_saveToStorage
      gallery_service_def gallery_project_def retitle_input_def js_get_def or_null_def map_add_def)

subsection \<open>Normalising technologies\<close>

lemma technologies_of_examples:
  "technologies_of (JStr '' React, ,Node.js  ,'') = Inr (JArr [JStr ''React'', JStr ''Node.js''])"
  "technologies_of (JStr []) = Inr (JArr [])"
  "technologies_of (JArr [JStr ''a'', JNum 1]) = Inr (JArr [JStr ''a'', JNum 1])"
  "technologies_of JUndefined = Inl TypeError"
  "technologies_of (JNum 3) = Inl TypeError"
  by (simp_all add: technologies_of_def trim_def is_space_def)

end
